theory Spec2Isabelle
  imports Main
begin

section \<open>Values of the host language\<close>

text \<open>
  The two servers (\<^verbatim>\<open>python-server.py\<close>, the line-delimited one, and
  \<^verbatim>\<open>websocket_mcp_server.py\<close>, the message-framed one) work on the values that
  \<^verbatim>\<open>json.loads\<close> returns: \<^verbatim>\<open>None\<close>, booleans, unbounded integers, floats, strings,
  lists and dictionaries with string keys. Floats are kept abstract (the type parameter
  \<open>'f\<close>); what the host does with them is a parameter of the model. A dictionary is an
  association list in insertion order, read with \<open>map_of\<close>. A string is the list of its
  bytes in UTF-8.
\<close>

datatype 'f json =
    JNull
  | JBool bool
  | JInt int
  | JFloat 'f
  | JStr string
  | JArr "'f json list"
  | JObj "(string \<times> 'f json) list"

type_synonym 'f dict = "(string \<times> 'f json) list"

text \<open>The exceptions the handlers can raise, each with the text that \<^verbatim>\<open>str(e)\<close> gives.\<close>

datatype pyexn =
    KeyError string
  | AttributeError string
  | TypeError string
  | OverflowError string
  | ValueError string

fun exn_str :: "pyexn \<Rightarrow> string" where
  "exn_str (KeyError k) = [CHR 0x27] @ k @ [CHR 0x27]"
| "exn_str (AttributeError m) = m"
| "exn_str (TypeError m) = m"
| "exn_str (OverflowError m) = m"
| "exn_str (ValueError m) = m"

text \<open>
  What the host supplies: the JSON parser (\<open>Inl m\<close> is \<^verbatim>\<open>json.JSONDecodeError\<close> with
  text \<open>m\<close>), \<^verbatim>\<open>str.strip\<close>, float addition, the conversion of an integer that fits to a
  float, the truth value of a float, \<^verbatim>\<open>str\<close> of a float, a list or a dictionary, the
  two clock readings, indexed by the number of the message being handled, and the
  interpreter's limit on the number of digits of an integer that is converted to or from
  a string (\<^verbatim>\<open>sys.get_int_max_str_digits()\<close>, 4300 unless configured, 0 for no limit).
\<close>

record 'f host =
  loads :: "string \<Rightarrow> string + 'f json"
  strip :: "string \<Rightarrow> string"
  float_add :: "'f \<Rightarrow> 'f \<Rightarrow> 'f"
  float_of_int :: "int \<Rightarrow> 'f"
  float_truth :: "'f \<Rightarrow> bool"
  repr :: "'f json \<Rightarrow> string"
  now_isoformat :: "nat \<Rightarrow> string"
  now_strftime :: "nat \<Rightarrow> string"
  int_max_str_digits :: nat

fun type_name :: "'f json \<Rightarrow> string" where
  "type_name JNull = ''NoneType''"
| "type_name (JBool _) = ''bool''"
| "type_name (JInt _) = ''int''"
| "type_name (JFloat _) = ''float''"
| "type_name (JStr _) = ''str''"
| "type_name (JArr _) = ''list''"
| "type_name (JObj _) = ''dict''"

text \<open>\<^verbatim>\<open>d.get(k, default)\<close> on a dictionary.\<close>

definition dict_get :: "'f dict \<Rightarrow> string \<Rightarrow> 'f json \<Rightarrow> 'f json" where
  "dict_get d k dflt = (case map_of d k of Some v \<Rightarrow> v | None \<Rightarrow> dflt)"

text \<open>\<^verbatim>\<open>d[k]\<close> on a dictionary: a missing key raises \<^verbatim>\<open>KeyError\<close>.\<close>

definition dict_item :: "'f dict \<Rightarrow> string \<Rightarrow> pyexn + 'f json" where
  "dict_item d k = (case map_of d k of Some v \<Rightarrow> Inr v | None \<Rightarrow> Inl (KeyError k))"

text \<open>
  \<^verbatim>\<open>v.get(k, default)\<close> on any value: only a dictionary has the method, every other
  value raises \<^verbatim>\<open>AttributeError\<close>.
\<close>

definition no_get :: "'f json \<Rightarrow> pyexn" where
  "no_get v =
     AttributeError ([CHR 0x27] @ type_name v @ [CHR 0x27] @ '' object has no attribute ''
                     @ [CHR 0x27] @ ''get'' @ [CHR 0x27])"

definition py_get :: "'f json \<Rightarrow> string \<Rightarrow> 'f json \<Rightarrow> pyexn + 'f json" where
  "py_get v k dflt = (case v of JObj d \<Rightarrow> Inr (dict_get d k dflt) | _ \<Rightarrow> Inl (no_get v))"

subsection \<open>Rendering\<close>

definition digit_char :: "nat \<Rightarrow> char" where
  "digit_char n = char_of (48 + n)"

fun nat_str :: "nat \<Rightarrow> string" where
  "nat_str n = (if n < 10 then [digit_char n] else nat_str (n div 10) @ [digit_char (n mod 10)])"

declare nat_str.simps [simp del]

definition int_str :: "int \<Rightarrow> string" where
  "int_str i = (if i < 0 then ''-'' @ nat_str (nat (- i)) else nat_str (nat i))"

text \<open>
  What an f-string writes for \<^verbatim>\<open>{v}\<close>: a string as it is, \<^verbatim>\<open>None\<close>, \<^verbatim>\<open>True\<close>,
  \<^verbatim>\<open>False\<close>, an integer in decimal, and the host's rendering for the rest.
\<close>

definition py_str :: "'f host \<Rightarrow> 'f json \<Rightarrow> string" where
  "py_str h v =
     (case v of
        JStr s \<Rightarrow> s
      | JNull \<Rightarrow> ''None''
      | JBool b \<Rightarrow> (if b then ''True'' else ''False'')
      | JInt i \<Rightarrow> int_str i
      | _ \<Rightarrow> repr h v)"

text \<open>
  The parser converts an integer literal under the interpreter's digit limit, so no value
  that came out of the parser holds an integer over the limit, and \<open>py_str\<close> is the
  rendering of such a value. An integer that the program computes can be over the limit:
  rendering it raises \<^verbatim>\<open>ValueError\<close>. The limit applies to integers of more than 640
  digits, the least limit that can be configured.
\<close>

definition exceeds_digit_limit :: "'f host \<Rightarrow> int \<Rightarrow> bool" where
  "exceeds_digit_limit h i =
     (0 < int_max_str_digits h \<and> 10 ^ 640 \<le> \<bar>i\<bar> \<and> 10 ^ int_max_str_digits h \<le> \<bar>i\<bar>)"

definition digit_limit_text :: "'f host \<Rightarrow> string" where
  "digit_limit_text h =
     ''Exceeds the limit ('' @ nat_str (int_max_str_digits h)
     @ '' digits) for integer string conversion; use sys.set_int_max_str_digits() to increase the limit''"

definition py_str_computed :: "'f host \<Rightarrow> 'f json \<Rightarrow> pyexn + string" where
  "py_str_computed h v =
     (case v of
        JInt i \<Rightarrow>
          (if exceeds_digit_limit h i then Inl (ValueError (digit_limit_text h))
           else Inr (int_str i))
      | _ \<Rightarrow> Inr (py_str h v))"

text \<open>The truth value of \<^verbatim>\<open>v\<close> in a condition.\<close>

definition py_truth :: "'f host \<Rightarrow> 'f json \<Rightarrow> bool" where
  "py_truth h v =
     (case v of
        JNull \<Rightarrow> False
      | JBool b \<Rightarrow> b
      | JInt i \<Rightarrow> i \<noteq> 0
      | JFloat x \<Rightarrow> float_truth h x
      | JStr s \<Rightarrow> s \<noteq> []
      | JArr xs \<Rightarrow> xs \<noteq> []
      | JObj d \<Rightarrow> d \<noteq> [])"

subsection \<open>Addition\<close>

text \<open>
  \<^verbatim>\<open>a + b\<close>. Integers (and booleans, which are integers) add exactly; two floats add as
  the host adds them; an integer meeting a float is converted first, and the conversion
  raises \<^verbatim>\<open>OverflowError\<close> when the integer rounds to a value beyond the largest double.
  Strings and lists concatenate; everything else raises \<^verbatim>\<open>TypeError\<close>.
\<close>

definition float_overflows :: "int \<Rightarrow> bool" where
  "float_overflows i = (2 ^ 1024 - 2 ^ 970 \<le> \<bar>i\<bar>)"

fun as_number :: "'f json \<Rightarrow> (int + 'f) option" where
  "as_number (JBool b) = Some (Inl (if b then 1 else 0))"
| "as_number (JInt i) = Some (Inl i)"
| "as_number (JFloat x) = Some (Inr x)"
| "as_number _ = None"

definition to_float :: "'f host \<Rightarrow> int \<Rightarrow> pyexn + 'f" where
  "to_float h i =
     (if float_overflows i then Inl (OverflowError ''int too large to convert to float'')
      else Inr (float_of_int h i))"

definition unsupported_plus :: "'f json \<Rightarrow> 'f json \<Rightarrow> pyexn" where
  "unsupported_plus a b =
     TypeError (''unsupported operand type(s) for +: '' @ [CHR 0x27] @ type_name a @ [CHR 0x27]
                @ '' and '' @ [CHR 0x27] @ type_name b @ [CHR 0x27])"

definition cannot_concatenate :: "string \<Rightarrow> 'f json \<Rightarrow> pyexn" where
  "cannot_concatenate t b =
     TypeError (''can only concatenate '' @ t @ '' (not '' @ [CHR 0x22] @ type_name b @ [CHR 0x22]
                @ '') to '' @ t)"

definition py_add :: "'f host \<Rightarrow> 'f json \<Rightarrow> 'f json \<Rightarrow> pyexn + 'f json" where
  "py_add h a b =
     (case a of
        JStr s \<Rightarrow> (case b of JStr t \<Rightarrow> Inr (JStr (s @ t)) | _ \<Rightarrow> Inl (cannot_concatenate ''str'' b))
      | JArr xs \<Rightarrow> (case b of JArr ys \<Rightarrow> Inr (JArr (xs @ ys)) | _ \<Rightarrow> Inl (cannot_concatenate ''list'' b))
      | _ \<Rightarrow>
         (case (as_number a, as_number b) of
            (Some (Inl i), Some (Inl j)) \<Rightarrow> Inr (JInt (i + j))
          | (Some (Inr x), Some (Inr y)) \<Rightarrow> Inr (JFloat (float_add h x y))
          | (Some (Inl i), Some (Inr y)) \<Rightarrow>
              (case to_float h i of Inl e \<Rightarrow> Inl e | Inr x \<Rightarrow> Inr (JFloat (float_add h x y)))
          | (Some (Inr x), Some (Inl j)) \<Rightarrow>
              (case to_float h j of Inl e \<Rightarrow> Inl e | Inr y \<Rightarrow> Inr (JFloat (float_add h x y)))
          | _ \<Rightarrow> Inl (unsupported_plus a b)))"

section \<open>Responses\<close>

definition result_response :: "'f json \<Rightarrow> 'f json \<Rightarrow> 'f json" where
  "result_response rid res = JObj [(''jsonrpc'', JStr ''2.0''), (''id'', rid), (''result'', res)]"

definition error_response :: "'f json \<Rightarrow> int \<Rightarrow> string \<Rightarrow> 'f json" where
  "error_response rid code msg =
     JObj [(''jsonrpc'', JStr ''2.0''), (''id'', rid),
           (''error'', JObj [(''code'', JInt code), (''message'', JStr msg)])]"

definition text_block :: "string \<Rightarrow> 'f json" where
  "text_block t = JObj [(''type'', JStr ''text''), (''text'', JStr t)]"

definition content_result :: "'f json list \<Rightarrow> 'f json" where
  "content_result blocks = JObj [(''content'', JArr blocks)]"

section \<open>The line-delimited server\<close>

text \<open>The server object of \<^verbatim>\<open>python-server.py\<close>, as \<^verbatim>\<open>__init__\<close> builds it.\<close>

record 'f server =
  server_info :: "'f json"
  capabilities :: "'f json"
  tools :: "'f json"

definition echo_descriptor :: "'f json" where
  "echo_descriptor =
     JObj [(''name'', JStr ''echo''),
           (''description'', JStr ''Echo back the input text''),
           (''inputSchema'',
              JObj [(''type'', JStr ''object''),
                    (''properties'',
                       JObj [(''text'', JObj [(''type'', JStr ''string''),
                                              (''description'', JStr ''Text to echo back'')])]),
                    (''required'', JArr [JStr ''text''])])]"

definition add_descriptor :: "'f json" where
  "add_descriptor =
     JObj [(''name'', JStr ''add''),
           (''description'', JStr ''Add two numbers together''),
           (''inputSchema'',
              JObj [(''type'', JStr ''object''),
                    (''properties'',
                       JObj [(''a'', JObj [(''type'', JStr ''number''),
                                           (''description'', JStr ''First number'')]),
                             (''b'', JObj [(''type'', JStr ''number''),
                                           (''description'', JStr ''Second number'')])]),
                    (''required'', JArr [JStr ''a'', JStr ''b''])])]"

definition get_time_descriptor :: "'f json" where
  "get_time_descriptor =
     JObj [(''name'', JStr ''get_time''),
           (''description'', JStr ''Get the current time''),
           (''inputSchema'',
              JObj [(''type'', JStr ''object''),
                    (''properties'', JObj []),
                    (''additionalProperties'', JBool False)])]"

definition MCPTestServer_init :: "'f server" where
  "MCPTestServer_init =
     \<lparr> server_info = JObj [(''name'', JStr ''python-test-server''), (''version'', JStr ''1.0.0'')],
       capabilities = JObj [(''tools'', JObj [(''listChanged'', JBool True)])],
       tools = JArr [echo_descriptor, add_descriptor, get_time_descriptor] \<rparr>"

definition handle_initialize :: "'f server \<Rightarrow> 'f dict \<Rightarrow> pyexn + 'f json" where
  "handle_initialize self request =
     (case dict_item request ''id'' of
        Inl e \<Rightarrow> Inl e
      | Inr rid \<Rightarrow>
          Inr (result_response rid
                 (JObj [(''protocolVersion'', JStr ''2025-03-26''),
                        (''capabilities'', capabilities self),
                        (''serverInfo'', server_info self)])))"

definition handle_list_tools :: "'f server \<Rightarrow> 'f dict \<Rightarrow> pyexn + 'f json" where
  "handle_list_tools self request =
     (case dict_item request ''id'' of
        Inl e \<Rightarrow> Inl e
      | Inr rid \<Rightarrow> Inr (result_response rid (JObj [(''tools'', tools self)])))"

text \<open>
  The body of the \<^verbatim>\<open>try\<close> of \<^verbatim>\<open>handle_call_tool\<close>: the branch on the tool name
  builds the content (or returns the unknown-tool error), then the result is returned.
  Every \<^verbatim>\<open>request["id"]\<close> is read inside the \<^verbatim>\<open>try\<close>.
\<close>

definition call_tool_content ::
  "'f host \<Rightarrow> nat \<Rightarrow> 'f json \<Rightarrow> 'f json \<Rightarrow> pyexn + 'f json list option" where
  "call_tool_content h tick tool_name arguments =
     (if tool_name = JStr ''echo'' then
        (case py_get arguments ''text'' (JStr []) of
           Inl e \<Rightarrow> Inl e
         | Inr text \<Rightarrow> Inr (Some [text_block (''Echo: '' @ py_str h text)]))
      else if tool_name = JStr ''add'' then
        (case py_get arguments ''a'' (JInt 0) of
           Inl e \<Rightarrow> Inl e
         | Inr a \<Rightarrow>
            (case py_get arguments ''b'' (JInt 0) of
               Inl e \<Rightarrow> Inl e
             | Inr b \<Rightarrow>
                (case py_add h a b of
                   Inl e \<Rightarrow> Inl e
                 | Inr result \<Rightarrow>
                    (case py_str_computed h result of
                       Inl e \<Rightarrow> Inl e
                     | Inr rendered \<Rightarrow> Inr (Some [text_block (''Result: '' @ rendered)])))))
      else if tool_name = JStr ''get_time'' then
        Inr (Some [text_block (''Current time: '' @ now_isoformat h tick)])
      else Inr None)"

definition call_tool_try ::
  "'f host \<Rightarrow> nat \<Rightarrow> 'f dict \<Rightarrow> 'f json \<Rightarrow> 'f json \<Rightarrow> pyexn + 'f json" where
  "call_tool_try h tick request tool_name arguments =
     (case call_tool_content h tick tool_name arguments of
        Inl e \<Rightarrow> Inl e
      | Inr None \<Rightarrow>
          (case dict_item request ''id'' of
             Inl e \<Rightarrow> Inl e
           | Inr rid \<Rightarrow> Inr (error_response rid (- 32601) (''Unknown tool: '' @ py_str h tool_name)))
      | Inr (Some content) \<Rightarrow>
          (case dict_item request ''id'' of
             Inl e \<Rightarrow> Inl e
           | Inr rid \<Rightarrow> Inr (result_response rid (content_result content))))"

definition handle_call_tool :: "'f host \<Rightarrow> nat \<Rightarrow> 'f dict \<Rightarrow> pyexn + 'f json" where
  "handle_call_tool h tick request =
     (let params = dict_get request ''params'' (JObj []) in
      case py_get params ''name'' JNull of
        Inl e \<Rightarrow> Inl e
      | Inr tool_name \<Rightarrow>
         (case py_get params ''arguments'' (JObj []) of
            Inl e \<Rightarrow> Inl e
          | Inr arguments \<Rightarrow>
             (case call_tool_try h tick request tool_name arguments of
                Inr response \<Rightarrow> Inr response
              | Inl e \<Rightarrow>
                 (case dict_item request ''id'' of
                    Inl e' \<Rightarrow> Inl e'
                  | Inr rid \<Rightarrow>
                      Inr (error_response rid (- 32603) (''Tool execution error: '' @ exn_str e))))))"

text \<open>
  \<^verbatim>\<open>handle_request\<close> receives whatever the parser returned; \<^verbatim>\<open>request.get\<close> raises
  on anything that is not a dictionary.
\<close>

definition handle_request :: "'f host \<Rightarrow> 'f server \<Rightarrow> nat \<Rightarrow> 'f json \<Rightarrow> pyexn + 'f json" where
  "handle_request h self tick request =
     (case request of
        JObj d \<Rightarrow>
          (let method = dict_get d ''method'' JNull in
           if method = JStr ''initialize'' then handle_initialize self d
           else if method = JStr ''tools/list'' then handle_list_tools self d
           else if method = JStr ''tools/call'' then handle_call_tool h tick d
           else Inr (error_response (dict_get d ''id'' JNull) (- 32601)
                       (''Method not found: '' @ py_str h method)))
      | _ \<Rightarrow> Inl (no_get request))"

text \<open>
  The loop of \<^verbatim>\<open>run_stdio\<close> over the lines that \<^verbatim>\<open>readline\<close> returns (the end of the
  list, like an empty line read, is the end of the stream). It gives the values printed on
  standard output, in order, and how the loop ended: at the end of the stream, or on an
  exception that escaped the handler, which the loop reports on standard error before it
  stops.
\<close>

datatype stop = EndOfStream | ServerError pyexn

definition parse_error_stdio :: "string \<Rightarrow> 'f json" where
  "parse_error_stdio m = error_response JNull (- 32700) (''Parse error: '' @ m)"

fun run_stdio :: "'f host \<Rightarrow> 'f server \<Rightarrow> nat \<Rightarrow> string list \<Rightarrow> 'f json list \<times> stop" where
  "run_stdio h self tick [] = ([], EndOfStream)"
| "run_stdio h self tick (line # rest) =
     (if line = [] then ([], EndOfStream)
      else if strip h line = [] then run_stdio h self (Suc tick) rest
      else
        (case loads h (strip h line) of
           Inl m \<Rightarrow>
             (let (out, s) = run_stdio h self (Suc tick) rest in (parse_error_stdio m # out, s))
         | Inr request \<Rightarrow>
             (case handle_request h self tick request of
                Inl e \<Rightarrow> ([], ServerError e)
              | Inr response \<Rightarrow>
                  (let (out, s) = run_stdio h self (Suc tick) rest in (response # out, s)))))"

section \<open>The message-framed server\<close>

text \<open>The server object of \<^verbatim>\<open>websocket_mcp_server.py\<close>.\<close>

record 'f ws_server =
  ws_capabilities :: "'f json"

definition WebSocketMCPServer_init :: "'f ws_server" where
  "WebSocketMCPServer_init = \<lparr> ws_capabilities = JObj [(''tools'', JObj [])] \<rparr>"

definition websocket_search_descriptor :: "'f json" where
  "websocket_search_descriptor =
     JObj [(''name'', JStr ''websocket_search''),
           (''description'', JStr ''Search for information via WebSocket MCP server''),
           (''inputSchema'',
              JObj [(''type'', JStr ''object''),
                    (''properties'',
                       JObj [(''query'', JObj [(''type'', JStr ''string''),
                                               (''description'', JStr ''The search query'')])]),
                    (''required'', JArr [JStr ''query'']),
                    (''additionalProperties'', JBool False)])]"

definition websocket_time_descriptor :: "'f json" where
  "websocket_time_descriptor =
     JObj [(''name'', JStr ''websocket_time''),
           (''description'', JStr ''Get current time from WebSocket server''),
           (''inputSchema'',
              JObj [(''type'', JStr ''object''),
                    (''properties'', JObj []),
                    (''additionalProperties'', JBool False)])]"

definition ws_tools :: "'f json" where
  "ws_tools = JArr [websocket_search_descriptor, websocket_time_descriptor]"

text \<open>What \<^verbatim>\<open>{type(arguments)}\<close> writes.\<close>

definition class_str :: "'f json \<Rightarrow> string" where
  "class_str v = ''<class '' @ [CHR 0x27] @ type_name v @ [CHR 0x27] @ ''>''"

definition is_dict :: "'f json \<Rightarrow> bool" where
  "is_dict v = (case v of JObj _ \<Rightarrow> True | _ \<Rightarrow> False)"

definition query_required :: string where
  "query_required =
     ''Invalid parameters: '' @ [CHR 0x27] @ ''query'' @ [CHR 0x27]
     @ '' is required for websocket_search''"

definition search_text :: "string \<Rightarrow> string" where
  "search_text q =
     [CHR 0xF0, CHR 0x9F, CHR 0x94, CHR 0x8D] @ '' WEBSOCKET MCP SEARCH for '' @ [CHR 0x27] @ q
     @ [CHR 0x27]
     @ '': Found comprehensive results via WebSocket connection. Server located relevant information about ''
     @ q @ '' from distributed sources. [Response from WebSocket MCP Server]''"

definition time_text :: "string \<Rightarrow> string" where
  "time_text t =
     [CHR 0xE2, CHR 0x8F, CHR 0xB0] @ '' WEBSOCKET MCP TIME: '' @ t
     @ '' [Timestamp from WebSocket MCP Server]''"

text \<open>
  The \<^verbatim>\<open>tools/call\<close> branch of the handler. \<open>None\<close> would be "no response"; this branch
  always answers.
\<close>

definition ws_call_tool ::
  "'f host \<Rightarrow> nat \<Rightarrow> 'f json \<Rightarrow> 'f json \<Rightarrow> pyexn + 'f json option" where
  "ws_call_tool h tick params req_id =
     (case py_get params ''name'' JNull of
        Inl e \<Rightarrow> Inl e
      | Inr tool_name \<Rightarrow>
         (case py_get params ''arguments'' (JObj []) of
            Inl e \<Rightarrow> Inl e
          | Inr arguments \<Rightarrow>
             (if \<not> is_dict arguments then
                Inr (Some (error_response req_id (- 32602)
                  (''Invalid parameters: arguments must be a JSON object, got ''
                   @ class_str arguments)))
              else if tool_name = JStr ''websocket_search'' then
                (case py_get arguments ''query'' (JStr []) of
                   Inl e \<Rightarrow> Inl e
                 | Inr query \<Rightarrow>
                    (if \<not> py_truth h query then
                       Inr (Some (error_response req_id (- 32602) query_required))
                     else
                       Inr (Some (result_response req_id
                         (content_result [text_block (search_text (py_str h query))])))))
              else if tool_name = JStr ''websocket_time'' then
                Inr (Some (result_response req_id
                  (content_result [text_block (time_text (now_strftime h tick))])))
              else
                Inr (Some (error_response req_id (- 32601)
                  (''Method not found: Unknown tool '' @ [CHR 0x27] @ py_str h tool_name
                   @ [CHR 0x27]))))))"

definition ws_handle_request ::
  "'f host \<Rightarrow> 'f ws_server \<Rightarrow> nat \<Rightarrow> 'f json \<Rightarrow> pyexn + 'f json option" where
  "ws_handle_request h self tick request =
     (case request of
        JObj d \<Rightarrow>
          (let method = dict_get d ''method'' JNull;
               params = dict_get d ''params'' (JObj []);
               req_id = dict_get d ''id'' JNull
           in
           if method = JStr ''initialize'' then
             Inr (Some (result_response req_id
               (JObj [(''protocolVersion'', JStr ''2024-11-05''),
                      (''capabilities'', ws_capabilities self),
                      (''serverInfo'',
                         JObj [(''name'', JStr ''websocket-demo-mcp-server''),
                               (''version'', JStr ''1.0.0'')])])))
           else if method = JStr ''tools/list'' then
             Inr (Some (result_response req_id (JObj [(''tools'', ws_tools)])))
           else if method = JStr ''tools/call'' then ws_call_tool h tick params req_id
           else if method = JStr ''notifications/initialized'' then Inr None
           else Inr (Some (result_response req_id (JObj []))))
      | _ \<Rightarrow> Inl (no_get request))"

text \<open>
  The loop of \<^verbatim>\<open>handle_client\<close> over the frames of one connection: a text frame is
  parsed and handled, a binary frame is skipped. It gives the values sent, in order. A
  frame that does not parse is answered with the parse error; any other exception raised
  while the frame is handled is answered with the internal error; both leave the loop
  running.
\<close>

datatype frame = TextFrame string | BinaryFrame string

definition parse_error_ws :: "'f json" where
  "parse_error_ws = error_response JNull (- 32700) ''Parse error''"

definition internal_error_ws :: "pyexn \<Rightarrow> 'f json" where
  "internal_error_ws e = error_response JNull (- 32603) (''Internal error: '' @ exn_str e)"

fun handle_client :: "'f host \<Rightarrow> 'f ws_server \<Rightarrow> nat \<Rightarrow> frame list \<Rightarrow> 'f json list" where
  "handle_client h self tick [] = []"
| "handle_client h self tick (BinaryFrame _ # rest) = handle_client h self (Suc tick) rest"
| "handle_client h self tick (TextFrame message # rest) =
     (case loads h message of
        Inl _ \<Rightarrow> parse_error_ws # handle_client h self (Suc tick) rest
      | Inr request \<Rightarrow>
         (case ws_handle_request h self tick request of
            Inl e \<Rightarrow> internal_error_ws e # handle_client h self (Suc tick) rest
          | Inr None \<Rightarrow> handle_client h self (Suc tick) rest
          | Inr (Some response) \<Rightarrow> response # handle_client h self (Suc tick) rest))"

section \<open>A concrete host\<close>

text \<open>
  A host to run the model on: it strips the ASCII white space, reads a few wire texts, has
  one float value, a clock that stands still, and the default digit limit.
\<close>

definition ascii_space :: "char \<Rightarrow> bool" where
  "ascii_space c = (c \<in> set [CHR 0x09, CHR 0x0A, CHR 0x0B, CHR 0x0C, CHR 0x0D, CHR 0x1C, CHR 0x1D, CHR 0x1E, CHR 0x1F, CHR 0x20])"

definition ascii_strip :: "string \<Rightarrow> string" where
  "ascii_strip s = rev (dropWhile ascii_space (rev (dropWhile ascii_space s)))"

definition sample_table :: "(string \<times> unit json) list" where
  \<open>sample_table =
     [(''{"jsonrpc":"2.0","id":1,"method":"tools/list"}'',
         JObj [(''jsonrpc'', JStr ''2.0''), (''id'', JInt 1), (''method'', JStr ''tools/list'')]),
      (''{"jsonrpc":"2.0","method":"initialize"}'',
         JObj [(''jsonrpc'', JStr ''2.0''), (''method'', JStr ''initialize'')]),
      (''{"jsonrpc":"2.0","method":"notifications/initialized"}'',
         JObj [(''jsonrpc'', JStr ''2.0''), (''method'', JStr ''notifications/initialized'')]),
      (''{"jsonrpc":"2.0","id":2,"method":"tools/call","params":{"name":"echo","arguments":{"text":"hi"}}}'',
         JObj [(''jsonrpc'', JStr ''2.0''), (''id'', JInt 2), (''method'', JStr ''tools/call''),
               (''params'', JObj [(''name'', JStr ''echo''),
                                  (''arguments'', JObj [(''text'', JStr ''hi'')])])]),
      (''{"jsonrpc":"2.0","id":3,"method":"tools/list"}'',
         JObj [(''jsonrpc'', JStr ''2.0''), (''id'', JInt 3), (''method'', JStr ''tools/list'')]),
      (''{"jsonrpc":"2.0","id":7,"method":"tools/call","params":[1]}'',
         JObj [(''jsonrpc'', JStr ''2.0''), (''id'', JInt 7), (''method'', JStr ''tools/call''),
               (''params'', JArr [JInt 1])])]\<close>

definition sample_loads :: "string \<Rightarrow> string + unit json" where
  "sample_loads s =
     (case map_of sample_table s of
        Some v \<Rightarrow> Inr v
      | None \<Rightarrow> Inl ''Expecting value: line 1 column 1 (char 0)'')"

definition sample_host :: "unit host" where
  "sample_host =
     \<lparr> loads = sample_loads, strip = ascii_strip,
       float_add = (\<lambda>_ _. ()), float_of_int = (\<lambda>_. ()), float_truth = (\<lambda>_. True),
       repr = (\<lambda>_. ''nan''),
       now_isoformat = (\<lambda>_. ''2025-01-01T12:00:00.000000''),
       now_strftime = (\<lambda>_. ''2025-01-01 12:00:00''),
       int_max_str_digits = 4300 \<rparr>"

section \<open>Vocabulary of the specification\<close>

text \<open>
  The methods the specification calls recognised: \<^verbatim>\<open>initialize\<close>, \<^verbatim>\<open>tools/list\<close>,
  \<^verbatim>\<open>tools/call\<close> and every method that starts with \<^verbatim>\<open>notifications/\<close>.
\<close>

definition spec_recognized :: "'f json \<Rightarrow> bool" where
  "spec_recognized method =
     (method = JStr ''initialize'' \<or> method = JStr ''tools/list'' \<or> method = JStr ''tools/call''
      \<or> (case method of JStr s \<Rightarrow> take 14 s = ''notifications/'' | _ \<Rightarrow> False))"

text \<open>The tool names of each server's catalogue.\<close>

definition stdio_tool_names :: "'f json list" where
  "stdio_tool_names = [JStr ''echo'', JStr ''add'', JStr ''get_time'']"

definition ws_tool_names :: "'f json list" where
  "ws_tool_names = [JStr ''websocket_search'', JStr ''websocket_time'']"

definition missing_tool_request :: "unit json" where
  "missing_tool_request =
     JObj [(''jsonrpc'', JStr ''2.0''), (''id'', JInt 3), (''method'', JStr ''tools/call''),
           (''params'', JObj [(''name'', JStr ''missing_tool''), (''arguments'', JObj [])])]"


definition echo_list_request :: "unit json" where
  "echo_list_request =
     JObj [(''jsonrpc'', JStr ''2.0''), (''id'', JInt 4), (''method'', JStr ''tools/call''),
           (''params'', JObj [(''name'', JStr ''echo''), (''arguments'', JArr [JInt 1])])]"

definition add_request :: "'f json \<Rightarrow> 'f json \<Rightarrow> 'f json" where
  "add_request a b =
     JObj [(''jsonrpc'', JStr ''2.0''), (''id'', JInt 2), (''method'', JStr ''tools/call''),
           (''params'', JObj [(''name'', JStr ''add''),
                              (''arguments'', JObj [(''a'', a), (''b'', b)])])]"

text \<open>
  Two large operands: the integer written with 4300 nines, and \<open>10\<^sup>4\<^sup>0\<^sup>0\<close>.
\<close>

definition nines_4300 :: int where
  "nines_4300 = 10 ^ 4300 - 1"

definition ten_pow_400 :: int where
  "ten_pow_400 = 10 ^ 400"

text \<open>The id a response carries.\<close>

definition response_id :: "'f json \<Rightarrow> 'f json option" where
  "response_id r = (case r of JObj kv \<Rightarrow> map_of kv ''id'' | _ \<Rightarrow> None)"

section \<open>Routing\<close>

text \<open>
  C2, as the code has it. For a request object whose method is none of the recognised
  ones, the line-delimited server answers with the error -32601 and the message
  \<^verbatim>\<open>Method not found: {method}\<close>, under the request's id (null when there is none); the
  message-framed server answers the same request with an empty result under the
  request's id.
\<close>

theorem unknown_method:
  assumes "mth = dict_get d ''method'' JNull" and "\<not> spec_recognized mth"
  shows "handle_request h self tick (JObj d)
           = Inr (error_response (dict_get d ''id'' JNull) (- 32601)
                    (''Method not found: '' @ py_str h mth))
         \<and> ws_handle_request h wself tick (JObj d)
           = Inr (Some (result_response (dict_get d ''id'' JNull) (JObj [])))"
  using assms by (auto simp: handle_request_def ws_handle_request_def spec_recognized_def Let_def)

text \<open>
  C2 as stated fails on the message-framed server, where an unrecognised method gets a
  result and not an error.
\<close>

theorem unknown_method_ws_counterexample:
  "ws_handle_request sample_host WebSocketMCPServer_init 0
     (JObj [(''jsonrpc'', JStr ''2.0''), (''id'', JInt 1), (''method'', JStr ''resources/list'')])
   = Inr (Some (result_response (JInt 1) (JObj [])))
   \<and> result_response (JInt 1) (JObj [])
     \<noteq> (error_response (JInt 1) (- 32601) ''Method not found: resources/list'' :: unit json)"
  by (simp add: ws_handle_request_def dict_get_def result_response_def error_response_def)

theorem unknown_method_witness:
  "\<not> spec_recognized (JStr ''resources/list'' :: unit json)
   \<and> handle_request sample_host MCPTestServer_init 0
        (JObj [(''jsonrpc'', JStr ''2.0''), (''id'', JInt 1), (''method'', JStr ''resources/list'')])
      = Inr (error_response (JInt 1) (- 32601) ''Method not found: resources/list'')
   \<and> ws_handle_request sample_host WebSocketMCPServer_init 0
        (JObj [(''jsonrpc'', JStr ''2.0''), (''id'', JInt 1), (''method'', JStr ''resources/list'')])
      = Inr (Some (result_response (JInt 1) (JObj [])))"
  using unknown_method [where mth = "JStr ''resources/list''"
      and d = "[(''jsonrpc'', JStr ''2.0''), (''id'', JInt 1), (''method'', JStr ''resources/list'')]"
      and h = sample_host and self = MCPTestServer_init and tick = 0
      and wself = WebSocketMCPServer_init]
  by (simp add: spec_recognized_def dict_get_def py_str_def)

text \<open>
  C3, as the code has it. For a \<^verbatim>\<open>tools/call\<close> whose \<^verbatim>\<open>params\<close> is an object (or
  absent) and whose tool name is not in the catalogue: the line-delimited server, given a
  request with an id, answers with the error -32601 and the message
  \<^verbatim>\<open>Unknown tool: {name}\<close>; the message-framed server, given \<^verbatim>\<open>arguments\<close> that are an
  object (or absent), answers with the error -32601 and the message
  \<^verbatim>\<open>Method not found: Unknown tool '{name}'\<close>.
\<close>

theorem unknown_tool:
  assumes "dict_get d ''method'' JNull = JStr ''tools/call''"
    and "dict_get d ''params'' (JObj []) = JObj p"
    and "name = dict_get p ''name'' JNull"
  shows "(name \<notin> set stdio_tool_names \<and> map_of d ''id'' = Some rid \<longrightarrow>
            handle_request h self tick (JObj d)
              = Inr (error_response rid (- 32601) (''Unknown tool: '' @ py_str h name)))
         \<and> (name \<notin> set ws_tool_names \<and> is_dict (dict_get p ''arguments'' (JObj [])) \<longrightarrow>
            ws_handle_request h wself tick (JObj d)
              = Inr (Some (error_response (dict_get d ''id'' JNull) (- 32601)
                      (''Method not found: Unknown tool '' @ [CHR 0x27] @ py_str h name @ [CHR 0x27]))))"
  using assms
  by (auto simp: handle_request_def ws_handle_request_def handle_call_tool_def call_tool_try_def
      call_tool_content_def ws_call_tool_def py_get_def dict_item_def stdio_tool_names_def
      ws_tool_names_def Let_def is_dict_def split: json.splits)

text \<open>
  C3 as stated fails on the message-framed server: the code is -32601, the message is not
  \<^verbatim>\<open>Unknown tool: missing_tool\<close>.
\<close>

theorem unknown_tool_ws_counterexample:
  "ws_handle_request sample_host WebSocketMCPServer_init 0 missing_tool_request
     = Inr (Some (error_response (JInt 3) (- 32601)
         (''Method not found: Unknown tool '' @ [CHR 0x27] @ ''missing_tool'' @ [CHR 0x27])))
   \<and> ''Method not found: Unknown tool '' @ [CHR 0x27] @ ''missing_tool'' @ [CHR 0x27]
       \<noteq> ''Unknown tool: missing_tool''"
  by (simp add: missing_tool_request_def ws_handle_request_def ws_call_tool_def dict_get_def
      py_get_def is_dict_def py_str_def)

theorem unknown_tool_witness:
  "handle_request sample_host MCPTestServer_init 0 missing_tool_request
     = Inr (error_response (JInt 3) (- 32601) ''Unknown tool: missing_tool'')
   \<and> ws_handle_request sample_host WebSocketMCPServer_init 0 missing_tool_request
     = Inr (Some (error_response (JInt 3) (- 32601)
         (''Method not found: Unknown tool '' @ [CHR 0x27] @ ''missing_tool'' @ [CHR 0x27])))"
  using unknown_tool [where d = "[(''jsonrpc'', JStr ''2.0''), (''id'', JInt 3),
        (''method'', JStr ''tools/call''),
        (''params'', JObj [(''name'', JStr ''missing_tool''), (''arguments'', JObj [])])]"
      and p = "[(''name'', JStr ''missing_tool''), (''arguments'', JObj [])]"
      and name = "JStr ''missing_tool''" and rid = "JInt 3"
      and h = sample_host and self = MCPTestServer_init and tick = 0
      and wself = WebSocketMCPServer_init]
  by (simp add: missing_tool_request_def dict_get_def stdio_tool_names_def ws_tool_names_def
      is_dict_def py_str_def)

section \<open>Tool calls\<close>

text \<open>
  C4, as the code has it. For a \<^verbatim>\<open>tools/call\<close> whose \<^verbatim>\<open>params\<close> is an object in which
  \<^verbatim>\<open>arguments\<close> is present and is not an object: the message-framed server answers with
  the error -32602; the line-delimited server does not look at the shape of the arguments,
  so that, for a request with an id, \<^verbatim>\<open>echo\<close> and \<^verbatim>\<open>add\<close> answer with the error -32603
  that reports the failed \<^verbatim>\<open>arguments.get\<close>, \<^verbatim>\<open>get_time\<close> succeeds, and an unknown tool
  gets the error -32601.
\<close>

theorem arguments_not_object:
  assumes "dict_get d ''method'' JNull = JStr ''tools/call''"
    and "dict_get d ''params'' (JObj []) = JObj p"
    and "map_of p ''arguments'' = Some args"
    and "\<not> is_dict args"
    and "name = dict_get p ''name'' JNull"
  shows "ws_handle_request h wself tick (JObj d)
           = Inr (Some (error_response (dict_get d ''id'' JNull) (- 32602)
               (''Invalid parameters: arguments must be a JSON object, got '' @ class_str args)))
         \<and> (map_of d ''id'' = Some rid \<and> (name = JStr ''echo'' \<or> name = JStr ''add'') \<longrightarrow>
              handle_request h self tick (JObj d)
                = Inr (error_response rid (- 32603)
                    (''Tool execution error: '' @ exn_str (no_get args))))
         \<and> (map_of d ''id'' = Some rid \<and> name = JStr ''get_time'' \<longrightarrow>
              handle_request h self tick (JObj d)
                = Inr (result_response rid
                    (content_result [text_block (''Current time: '' @ now_isoformat h tick)])))
         \<and> (map_of d ''id'' = Some rid \<and> name \<notin> set stdio_tool_names \<longrightarrow>
              handle_request h self tick (JObj d)
                = Inr (error_response rid (- 32601) (''Unknown tool: '' @ py_str h name)))"
  using assms
  by (auto simp: handle_request_def ws_handle_request_def handle_call_tool_def call_tool_try_def
      call_tool_content_def ws_call_tool_def py_get_def dict_item_def dict_get_def
      stdio_tool_names_def Let_def is_dict_def split: json.splits)

text \<open>
  C4 as stated fails on the line-delimited server: \<^verbatim>\<open>echo\<close> with a list for its
  arguments is answered with the code -32603, not -32602.
\<close>

theorem arguments_not_object_stdio_counterexample:
  "handle_request sample_host MCPTestServer_init 0 echo_list_request
     = Inr (error_response (JInt 4) (- 32603)
         (''Tool execution error: '' @ [CHR 0x27] @ ''list'' @ [CHR 0x27]
          @ '' object has no attribute '' @ [CHR 0x27] @ ''get'' @ [CHR 0x27]))"
  by (simp add: echo_list_request_def handle_request_def handle_call_tool_def call_tool_try_def
      call_tool_content_def py_get_def dict_get_def dict_item_def no_get_def)

theorem arguments_not_object_witness:
  "\<not> is_dict (JArr [JInt 1 :: unit json])
   \<and> ws_handle_request sample_host WebSocketMCPServer_init 0 echo_list_request
     = Inr (Some (error_response (JInt 4) (- 32602)
         (''Invalid parameters: arguments must be a JSON object, got <class ''
          @ [CHR 0x27] @ ''list'' @ [CHR 0x27] @ ''>'')))
   \<and> handle_request sample_host MCPTestServer_init 0 echo_list_request
     = Inr (error_response (JInt 4) (- 32603)
         (''Tool execution error: '' @ [CHR 0x27] @ ''list'' @ [CHR 0x27]
          @ '' object has no attribute '' @ [CHR 0x27] @ ''get'' @ [CHR 0x27]))"
  using arguments_not_object [where d = "[(''jsonrpc'', JStr ''2.0''), (''id'', JInt 4),
        (''method'', JStr ''tools/call''),
        (''params'', JObj [(''name'', JStr ''echo''), (''arguments'', JArr [JInt 1])])]"
      and p = "[(''name'', JStr ''echo''), (''arguments'', JArr [JInt 1])]"
      and args = "JArr [JInt 1]" and name = "JStr ''echo''" and rid = "JInt 4"
      and h = sample_host and self = MCPTestServer_init and tick = 0
      and wself = WebSocketMCPServer_init]
  by (simp add: echo_list_request_def dict_get_def is_dict_def class_str_def no_get_def)



text \<open>
  C9, at the input where the code breaks it. An \<^verbatim>\<open>initialize\<close> request without an id
  makes the handler of the line-delimited server raise \<^verbatim>\<open>KeyError\<close>; the loop stops with
  nothing printed and the next line is not read. The message-framed server answers the
  same request under the id null.
\<close>

theorem initialize_without_id_stdio:
  \<open>handle_request sample_host MCPTestServer_init 0
     (JObj [(''jsonrpc'', JStr ''2.0''), (''method'', JStr ''initialize'')])
     = Inl (KeyError ''id'')
   \<and> run_stdio sample_host MCPTestServer_init 0
       [''{"jsonrpc":"2.0","method":"initialize"}'' @ [CHR 0x0A],
        ''{"jsonrpc":"2.0","id":1,"method":"tools/list"}'' @ [CHR 0x0A]]
     = ([], ServerError (KeyError ''id''))
   \<and> ws_handle_request sample_host WebSocketMCPServer_init 0
     (JObj [(''jsonrpc'', JStr ''2.0''), (''method'', JStr ''initialize'')])
     = Inr (Some (result_response JNull
         (JObj [(''protocolVersion'', JStr ''2024-11-05''),
                (''capabilities'', JObj [(''tools'', JObj [])]),
                (''serverInfo'', JObj [(''name'', JStr ''websocket-demo-mcp-server''),
                                       (''version'', JStr ''1.0.0'')])])))\<close>
  by (simp add: handle_request_def handle_initialize_def dict_get_def dict_item_def
      sample_host_def ascii_strip_def ascii_space_def sample_loads_def sample_table_def
      ws_handle_request_def WebSocketMCPServer_init_def)

section \<open>Sessions\<close>

text \<open>
  Both loops handle a message without looking at what came before it, apart from the clock:
  the output of a session on a sequence of messages is the output on a first part,
  followed by the output on the rest. For the line-delimited server the first part must
  have been read to its end: no empty read in it, and no exception that stopped the loop.
\<close>

lemma handle_client_append:
  "handle_client h self t (pre @ rest)
     = handle_client h self t pre @ handle_client h self (t + length pre) rest"
proof (induction pre arbitrary: t)
  case Nil
  show ?case by simp
next
  case (Cons f pre)
  show ?case
    by (cases f) (simp_all add: Cons.IH split: sum.splits option.splits)
qed

lemma run_stdio_append:
  assumes "[] \<notin> set pre" and "snd (run_stdio h self t pre) = EndOfStream"
  shows "run_stdio h self t (pre @ rest)
           = (fst (run_stdio h self t pre) @ fst (run_stdio h self (t + length pre) rest),
              snd (run_stdio h self (t + length pre) rest))"
  using assms
proof (induction pre arbitrary: t)
  case Nil
  show ?case by simp
next
  case (Cons l pre)
  from Cons.prems have ne: "l \<noteq> []" and pre: "[] \<notin> set pre" by auto
  show ?case
  proof (cases "strip h l = []")
    case True
    with ne Cons.prems Cons.IH [OF pre, of "Suc t"] show ?thesis by simp
  next
    case False
    show ?thesis
    proof (cases "loads h (strip h l)")
      case (Inl m)
      with ne False Cons.prems Cons.IH [OF pre, of "Suc t"] show ?thesis
        by (simp add: case_prod_beta)
    next
      case (Inr request)
      show ?thesis
      proof (cases "handle_request h self t request")
        case (Inl e)
        with ne False Inr Cons.prems show ?thesis by simp
      next
        case inner: (Inr response)
        with ne False Inr Cons.prems Cons.IH [OF pre, of "Suc t"] show ?thesis
          by (simp add: case_prod_beta)
      qed
    qed
  qed
qed





text \<open>
  C7. Whatever the session has handled before (\<open>pre\<close>, any sequence of units, tool calls
  included), a \<^verbatim>\<open>tools/list\<close> request is answered with the same catalogue, the
  descriptors in the same order: \<^verbatim>\<open>echo\<close>, \<^verbatim>\<open>add\<close>, \<^verbatim>\<open>get_time\<close> on the line-delimited
  server (for a request with an id, reached by the loop), \<^verbatim>\<open>websocket_search\<close>,
  \<^verbatim>\<open>websocket_time\<close> on the message-framed one. No handler assigns to a field of the
  server object, so the loops pass it on unchanged.
\<close>

theorem tool_catalog_constant:
  shows "([] \<notin> set pre \<and> snd (run_stdio h MCPTestServer_init t pre) = EndOfStream
          \<and> line \<noteq> [] \<and> strip h line \<noteq> [] \<and> loads h (strip h line) = Inr (JObj d)
          \<and> dict_get d ''method'' JNull = JStr ''tools/list'' \<and> map_of d ''id'' = Some rid \<longrightarrow>
          run_stdio h MCPTestServer_init t (pre @ line # rest)
            = (fst (run_stdio h MCPTestServer_init t pre)
                 @ result_response rid
                     (JObj [(''tools'', JArr [echo_descriptor, add_descriptor, get_time_descriptor])])
                 # fst (run_stdio h MCPTestServer_init (Suc (t + length pre)) rest),
               snd (run_stdio h MCPTestServer_init (Suc (t + length pre)) rest)))
         \<and> (loads h msg = Inr (JObj d') \<and> dict_get d' ''method'' JNull = JStr ''tools/list'' \<longrightarrow>
          handle_client h wself t (pre' @ TextFrame msg # rest')
            = handle_client h wself t pre'
                @ result_response (dict_get d' ''id'' JNull)
                    (JObj [(''tools'', JArr [websocket_search_descriptor, websocket_time_descriptor])])
                # handle_client h wself (Suc (t + length pre')) rest')"
  by (simp add: run_stdio_append handle_client_append case_prod_beta handle_request_def
      handle_list_tools_def dict_item_def ws_handle_request_def MCPTestServer_init_def
      ws_tools_def)

theorem tool_catalog_constant_witness:
  \<open>run_stdio sample_host MCPTestServer_init 0
     [''{"jsonrpc":"2.0","id":1,"method":"tools/list"}'' @ [CHR 0x0A],
      ''{"jsonrpc":"2.0","id":2,"method":"tools/call","params":{"name":"echo","arguments":{"text":"hi"}}}'' @ [CHR 0x0A],
      ''{"jsonrpc":"2.0","id":3,"method":"tools/list"}'' @ [CHR 0x0A]]
     = ([result_response (JInt 1)
           (JObj [(''tools'', JArr [echo_descriptor, add_descriptor, get_time_descriptor])]),
         result_response (JInt 2) (content_result [text_block ''Echo: hi'']),
         result_response (JInt 3)
           (JObj [(''tools'', JArr [echo_descriptor, add_descriptor, get_time_descriptor])])],
        EndOfStream)
   \<and> handle_client sample_host WebSocketMCPServer_init 0
     [TextFrame ''{"jsonrpc":"2.0","id":1,"method":"tools/list"}'',
      TextFrame ''{"jsonrpc":"2.0","id":2,"method":"tools/call","params":{"name":"echo","arguments":{"text":"hi"}}}'',
      TextFrame ''{"jsonrpc":"2.0","id":3,"method":"tools/list"}'']
     = [result_response (JInt 1)
          (JObj [(''tools'', JArr [websocket_search_descriptor, websocket_time_descriptor])]),
        error_response (JInt 2) (- 32601)
          (''Method not found: Unknown tool '' @ [CHR 0x27] @ ''echo'' @ [CHR 0x27]),
        result_response (JInt 3)
          (JObj [(''tools'', JArr [websocket_search_descriptor, websocket_time_descriptor])])]\<close>
  using tool_catalog_constant [where pre = \<open>[''{"jsonrpc":"2.0","id":1,"method":"tools/list"}'' @ [CHR 0x0A],
      ''{"jsonrpc":"2.0","id":2,"method":"tools/call","params":{"name":"echo","arguments":{"text":"hi"}}}'' @ [CHR 0x0A]]\<close>
      and h = sample_host and t = 0
      and line = \<open>''{"jsonrpc":"2.0","id":3,"method":"tools/list"}'' @ [CHR 0x0A]\<close>
      and d = "[(''jsonrpc'', JStr ''2.0''), (''id'', JInt 3), (''method'', JStr ''tools/list'')]"
      and rid = "JInt 3" and rest = "[]"
      and msg = \<open>''{"jsonrpc":"2.0","id":3,"method":"tools/list"}''\<close>
      and d' = "[(''jsonrpc'', JStr ''2.0''), (''id'', JInt 3), (''method'', JStr ''tools/list'')]"
      and wself = WebSocketMCPServer_init
      and pre' = \<open>[TextFrame ''{"jsonrpc":"2.0","id":1,"method":"tools/list"}'',
      TextFrame ''{"jsonrpc":"2.0","id":2,"method":"tools/call","params":{"name":"echo","arguments":{"text":"hi"}}}'']\<close>
      and rest' = "[]"]
  by (simp add: sample_host_def ascii_strip_def ascii_space_def sample_loads_def sample_table_def
      handle_request_def handle_list_tools_def handle_call_tool_def call_tool_try_def
      call_tool_content_def py_get_def py_str_def dict_get_def dict_item_def
      ws_handle_request_def ws_call_tool_def is_dict_def MCPTestServer_init_def ws_tools_def)

text \<open>
  C10. On the message-framed server, when the handler raises on a frame that parsed, the
  frame is answered with the error -32603 under the id null (the id of the request is
  not echoed), wherever the frame stands in the session, and the loop goes on with the
  frames after it. The handler raises when \<^verbatim>\<open>params\<close> of a \<^verbatim>\<open>tools/call\<close> is not an
  object, and when the parsed value itself is not an object.
\<close>

theorem internal_error_ws:
  shows "(loads h msg = Inr request \<and> ws_handle_request h wself (t + length pre) request = Inl e \<longrightarrow>
          handle_client h wself t (pre @ TextFrame msg # rest)
            = handle_client h wself t pre
                @ error_response JNull (- 32603) (''Internal error: '' @ exn_str e)
                # handle_client h wself (Suc (t + length pre)) rest)
         \<and> (dict_get d ''method'' JNull = JStr ''tools/call''
              \<and> \<not> is_dict (dict_get d ''params'' (JObj [])) \<longrightarrow>
            ws_handle_request h wself t' (JObj d) = Inl (no_get (dict_get d ''params'' (JObj []))))
         \<and> (\<not> is_dict v \<longrightarrow> ws_handle_request h wself t' v = Inl (no_get v))"
  by (auto simp: handle_client_append internal_error_ws_def ws_handle_request_def
      ws_call_tool_def py_get_def is_dict_def Let_def split: json.splits)

theorem internal_error_ws_witness:
  \<open>handle_client sample_host WebSocketMCPServer_init 0
     [TextFrame ''{"jsonrpc":"2.0","id":7,"method":"tools/call","params":[1]}'',
      TextFrame ''{"jsonrpc":"2.0","id":1,"method":"tools/list"}'']
     = [error_response JNull (- 32603)
          (''Internal error: '' @ [CHR 0x27] @ ''list'' @ [CHR 0x27]
           @ '' object has no attribute '' @ [CHR 0x27] @ ''get'' @ [CHR 0x27]),
        result_response (JInt 1) (JObj [(''tools'', ws_tools)])]
   \<and> ws_handle_request sample_host WebSocketMCPServer_init 0
       (JObj [(''jsonrpc'', JStr ''2.0''), (''id'', JInt 7), (''method'', JStr ''tools/call''),
              (''params'', JArr [JInt 1])])
     = Inl (no_get (JArr [JInt 1 :: unit json]))
   \<and> ws_handle_request sample_host WebSocketMCPServer_init 0 (JArr [JInt 1])
     = Inl (no_get (JArr [JInt 1 :: unit json]))\<close>
  using internal_error_ws [where h = sample_host and wself = WebSocketMCPServer_init and t = 0
      and pre = "[]" and t' = 0
      and msg = \<open>''{"jsonrpc":"2.0","id":7,"method":"tools/call","params":[1]}''\<close>
      and request = "JObj [(''jsonrpc'', JStr ''2.0''), (''id'', JInt 7),
            (''method'', JStr ''tools/call''), (''params'', JArr [JInt 1])]"
      and e = "no_get (JArr [JInt 1 :: unit json])"
      and rest = \<open>[TextFrame ''{"jsonrpc":"2.0","id":1,"method":"tools/list"}'']\<close>
      and d = "[(''jsonrpc'', JStr ''2.0''), (''id'', JInt 7),
            (''method'', JStr ''tools/call''), (''params'', JArr [JInt 1])]"
      and v = "JArr [JInt 1]"]
  by (simp add: sample_host_def sample_loads_def sample_table_def dict_get_def is_dict_def
      no_get_def ws_handle_request_def)

section \<open>Requests without an id\<close>

text \<open>
  Neither server looks at the presence of the id to decide whether to answer. The
  handler of the message-framed server stays silent for one method only; every answer it
  gives carries the id that \<^verbatim>\<open>request.get("id")\<close> returned, and the answer that the loop
  gives for an exception carries the id null.
\<close>

lemma ws_call_tool_answers: "ws_call_tool h tick params req_id \<noteq> Inr None"
  by (simp add: ws_call_tool_def split: sum.splits)

lemma ws_silent_iff:
  "ws_handle_request h wself t (JObj d) = Inr None
     \<longleftrightarrow> dict_get d ''method'' JNull = JStr ''notifications/initialized''"
  by (simp add: ws_handle_request_def Let_def ws_call_tool_answers)

lemma response_id_simps:
  "response_id (result_response rid res) = Some rid"
  "response_id (error_response rid code m) = Some rid"
  "response_id (internal_error_ws e) = Some JNull"
  by (simp_all add: response_id_def result_response_def error_response_def internal_error_ws_def)

lemma ws_call_tool_id:
  "ws_call_tool h tick params req_id = Inr (Some r) \<Longrightarrow> response_id r = Some req_id"
  by (auto simp: ws_call_tool_def response_id_simps split: sum.splits if_splits)

lemma ws_handle_request_id:
  "ws_handle_request h wself t (JObj d) = Inr (Some r)
     \<Longrightarrow> response_id r = Some (dict_get d ''id'' JNull)"
  by (auto simp: ws_handle_request_def Let_def response_id_simps split: if_splits
      dest: ws_call_tool_id)

lemma ws_answer:
  assumes "loads h msg = Inr (JObj d)"
    and "dict_get d ''method'' JNull \<noteq> JStr ''notifications/initialized''"
  shows "\<exists>r. handle_client h wself t [TextFrame msg] = [r]
           \<and> (map_of d ''id'' = None \<longrightarrow> response_id r = Some JNull)"
proof (cases "ws_handle_request h wself t (JObj d)")
  case (Inl e)
  with assms(1) show ?thesis by (simp add: response_id_simps)
next
  case (Inr ans)
  with assms(2) ws_silent_iff [of h wself t d] obtain r where r: "ans = Some r"
    by (cases ans) auto
  from Inr r have "response_id r = Some (dict_get d ''id'' JNull)"
    by (simp add: ws_handle_request_id)
  with assms(1) Inr r show ?thesis by (auto simp: dict_get_def)
qed

text \<open>
  C1, as the code has it. On the message-framed server a request object is left
  unanswered exactly when its method is \<^verbatim>\<open>notifications/initialized\<close>, with or without an
  id; every other request object is answered with exactly one response, and when the
  request has no id that response carries the id null. On the line-delimited server a
  request without an id whose method is none of \<^verbatim>\<open>initialize\<close>, \<^verbatim>\<open>tools/list\<close>,
  \<^verbatim>\<open>tools/call\<close> is answered with the error -32601 under the id null, and the loop goes
  on.
\<close>

theorem notification_output:
  shows "(loads h msg = Inr (JObj d) \<longrightarrow>
            (handle_client h wself t [TextFrame msg] = []
               \<longleftrightarrow> dict_get d ''method'' JNull = JStr ''notifications/initialized''))
         \<and> (loads h msg = Inr (JObj d)
              \<and> dict_get d ''method'' JNull \<noteq> JStr ''notifications/initialized'' \<longrightarrow>
            (\<exists>r. handle_client h wself t [TextFrame msg] = [r]
                  \<and> (map_of d ''id'' = None \<longrightarrow> response_id r = Some JNull)))
         \<and> (line \<noteq> [] \<and> strip h line \<noteq> [] \<and> loads h (strip h line) = Inr (JObj d')
              \<and> map_of d' ''id'' = None \<and> mth = dict_get d' ''method'' JNull
              \<and> mth \<noteq> JStr ''initialize'' \<and> mth \<noteq> JStr ''tools/list''
              \<and> mth \<noteq> JStr ''tools/call'' \<longrightarrow>
            run_stdio h self t (line # rest)
              = (error_response JNull (- 32601) (''Method not found: '' @ py_str h mth)
                   # fst (run_stdio h self (Suc t) rest),
                 snd (run_stdio h self (Suc t) rest)))"
proof (intro conjI impI)
  assume p: "loads h msg = Inr (JObj d)"
  show "handle_client h wself t [TextFrame msg] = []
          \<longleftrightarrow> dict_get d ''method'' JNull = JStr ''notifications/initialized''"
  proof (cases "ws_handle_request h wself t (JObj d)")
    case (Inl e)
    with p ws_silent_iff [of h wself t d] show ?thesis by simp
  next
    case (Inr r)
    with p ws_silent_iff [of h wself t d] show ?thesis by (cases r) simp_all
  qed
next
  assume "loads h msg = Inr (JObj d)
      \<and> dict_get d ''method'' JNull \<noteq> JStr ''notifications/initialized''"
  then have "loads h msg = Inr (JObj d)"
    and "dict_get d ''method'' JNull \<noteq> JStr ''notifications/initialized''"
    by simp_all
  then show "\<exists>r. handle_client h wself t [TextFrame msg] = [r]
      \<and> (map_of d ''id'' = None \<longrightarrow> response_id r = Some JNull)"
    by (rule ws_answer)
next
  assume a: "line \<noteq> [] \<and> strip h line \<noteq> [] \<and> loads h (strip h line) = Inr (JObj d')
      \<and> map_of d' ''id'' = None \<and> mth = dict_get d' ''method'' JNull
      \<and> mth \<noteq> JStr ''initialize'' \<and> mth \<noteq> JStr ''tools/list''
      \<and> mth \<noteq> JStr ''tools/call''"
  then have m: "dict_get d' ''method'' JNull = mth" and i: "dict_get d' ''id'' JNull = JNull"
    by (simp_all add: dict_get_def)
  from a have n: "mth \<noteq> JStr ''initialize''" "mth \<noteq> JStr ''tools/list''"
      "mth \<noteq> JStr ''tools/call''"
    by blast+
  have "handle_request h self t (JObj d')
      = Inr (error_response JNull (- 32601) (''Method not found: '' @ py_str h mth))"
    by (simp add: handle_request_def Let_def m i n)
  with a show "run_stdio h self t (line # rest)
      = (error_response JNull (- 32601) (''Method not found: '' @ py_str h mth)
           # fst (run_stdio h self (Suc t) rest),
         snd (run_stdio h self (Suc t) rest))"
    by (simp add: case_prod_beta)
qed

text \<open>
  C1 as stated fails on both servers: the message-framed server answers an
  \<^verbatim>\<open>initialize\<close> that has no id, and the line-delimited server answers the notification
  \<^verbatim>\<open>notifications/initialized\<close> with an error.
\<close>

theorem notification_output_counterexample:
  \<open>handle_client sample_host WebSocketMCPServer_init 0
     [TextFrame ''{"jsonrpc":"2.0","method":"initialize"}'']
     = [result_response JNull
          (JObj [(''protocolVersion'', JStr ''2024-11-05''),
                 (''capabilities'', JObj [(''tools'', JObj [])]),
                 (''serverInfo'', JObj [(''name'', JStr ''websocket-demo-mcp-server''),
                                        (''version'', JStr ''1.0.0'')])])]
   \<and> run_stdio sample_host MCPTestServer_init 0
       [''{"jsonrpc":"2.0","method":"notifications/initialized"}'' @ [CHR 0x0A]]
     = ([error_response JNull (- 32601) ''Method not found: notifications/initialized''],
        EndOfStream)\<close>
  by (simp add: sample_host_def ascii_strip_def ascii_space_def sample_loads_def sample_table_def
      ws_handle_request_def WebSocketMCPServer_init_def handle_request_def dict_get_def
      py_str_def)

theorem notification_output_witness:
  \<open>handle_client sample_host WebSocketMCPServer_init 0
     [TextFrame ''{"jsonrpc":"2.0","method":"notifications/initialized"}''] = []
   \<and> (\<exists>r. handle_client sample_host WebSocketMCPServer_init 0
          [TextFrame ''{"jsonrpc":"2.0","method":"initialize"}''] = [r]
        \<and> response_id r = Some JNull)
   \<and> run_stdio sample_host MCPTestServer_init 0
       [''{"jsonrpc":"2.0","method":"notifications/initialized"}'' @ [CHR 0x0A]]
     = ([error_response JNull (- 32601) ''Method not found: notifications/initialized''],
        EndOfStream)\<close>
  using notification_output [where h = sample_host and wself = WebSocketMCPServer_init and t = 0
      and msg = \<open>''{"jsonrpc":"2.0","method":"notifications/initialized"}''\<close>
      and d = "[(''jsonrpc'', JStr ''2.0''), (''method'', JStr ''notifications/initialized'')]"
      and line = \<open>''{"jsonrpc":"2.0","method":"notifications/initialized"}'' @ [CHR 0x0A]\<close>
      and d' = "[(''jsonrpc'', JStr ''2.0''), (''method'', JStr ''notifications/initialized'')]"
      and mth = "JStr ''notifications/initialized''" and self = MCPTestServer_init
      and rest = "[]"]
    notification_output [where h = sample_host and wself = WebSocketMCPServer_init and t = 0
      and msg = \<open>''{"jsonrpc":"2.0","method":"initialize"}''\<close>
      and d = "[(''jsonrpc'', JStr ''2.0''), (''method'', JStr ''initialize'')]"
      and line = "[]"]
  by (simp add: sample_host_def ascii_strip_def ascii_space_def sample_loads_def sample_table_def
      dict_get_def py_str_def)

section \<open>The tool add\<close>

text \<open>
  The answer to a call of \<^verbatim>\<open>add\<close> that has an id is decided by the sum and its
  rendering alone: a result with the rendered sum, or, when the addition or the rendering
  raises, the error -32603 with the text of the exception.
\<close>

lemma add_tool_response:
  assumes "dict_get d ''method'' JNull = JStr ''tools/call''"
    and "dict_get d ''params'' (JObj []) = JObj p"
    and "dict_get p ''name'' JNull = JStr ''add''"
    and "dict_get p ''arguments'' (JObj []) = JObj a"
    and "map_of d ''id'' = Some rid"
  shows "handle_request h self tick (JObj d)
           = (case py_add h (dict_get a ''a'' (JInt 0)) (dict_get a ''b'' (JInt 0)) of
                Inr r \<Rightarrow>
                  (case py_str_computed h r of
                     Inr s \<Rightarrow> Inr (result_response rid
                                (content_result [text_block (''Result: '' @ s)]))
                   | Inl e \<Rightarrow> Inr (error_response rid (- 32603)
                                (''Tool execution error: '' @ exn_str e)))
              | Inl e \<Rightarrow> Inr (error_response rid (- 32603)
                                (''Tool execution error: '' @ exn_str e)))"
  using assms
  by (simp add: handle_request_def handle_call_tool_def call_tool_try_def call_tool_content_def
      py_get_def dict_item_def Let_def split: sum.splits)

text \<open>
  C6, as the code has it. For a \<^verbatim>\<open>tools/call\<close> of \<^verbatim>\<open>add\<close> that has an id, with \<^verbatim>\<open>a\<close>
  and \<^verbatim>\<open>b\<close> each an integer or a float, or absent and then 0: two integers whose sum
  is within the interpreter's digit limit give the text \<^verbatim>\<open>Result: \<close> followed by the sum
  in decimal, negative sums included; two integers whose sum is over the limit give the
  error -32603 with the text of the \<^verbatim>\<open>ValueError\<close>; two floats, or a float and an integer
  that converts to a float, give \<^verbatim>\<open>Result: \<close> followed by the host's rendering of the
  float sum; a float and an integer too large to convert give the error -32603 with the
  text \<^verbatim>\<open>Tool execution error: int too large to convert to float\<close>.
\<close>

theorem add_tool:
  assumes "dict_get d ''method'' JNull = JStr ''tools/call''"
    and "dict_get d ''params'' (JObj []) = JObj p"
    and "dict_get p ''name'' JNull = JStr ''add''"
    and "dict_get p ''arguments'' (JObj []) = JObj a"
    and "map_of d ''id'' = Some rid"
    and "x = dict_get a ''a'' (JInt 0)" and "y = dict_get a ''b'' (JInt 0)"
  shows "(\<forall>i j. x = JInt i \<and> y = JInt j \<and> \<not> exceeds_digit_limit h (i + j) \<longrightarrow>
            handle_request h self tick (JObj d)
              = Inr (result_response rid
                  (content_result [text_block (''Result: '' @ int_str (i + j))])))
         \<and> (\<forall>i j. x = JInt i \<and> y = JInt j \<and> exceeds_digit_limit h (i + j) \<longrightarrow>
            handle_request h self tick (JObj d)
              = Inr (error_response rid (- 32603)
                  (''Tool execution error: Exceeds the limit (''
                   @ nat_str (int_max_str_digits h)
                   @ '' digits) for integer string conversion; use sys.set_int_max_str_digits() to increase the limit'')))
         \<and> (\<forall>u v. x = JFloat u \<and> y = JFloat v \<longrightarrow>
            handle_request h self tick (JObj d)
              = Inr (result_response rid
                  (content_result
                     [text_block (''Result: '' @ repr h (JFloat (float_add h u v)))])))
         \<and> (\<forall>i v. x = JInt i \<and> y = JFloat v \<and> \<not> float_overflows i \<longrightarrow>
            handle_request h self tick (JObj d)
              = Inr (result_response rid
                  (content_result
                     [text_block (''Result: ''
                        @ repr h (JFloat (float_add h (float_of_int h i) v)))])))
         \<and> (\<forall>u j. x = JFloat u \<and> y = JInt j \<and> \<not> float_overflows j \<longrightarrow>
            handle_request h self tick (JObj d)
              = Inr (result_response rid
                  (content_result
                     [text_block (''Result: ''
                        @ repr h (JFloat (float_add h u (float_of_int h j))))])))
         \<and> (\<forall>i v. (x = JInt i \<and> y = JFloat v \<or> x = JFloat v \<and> y = JInt i)
                  \<and> float_overflows i \<longrightarrow>
            handle_request h self tick (JObj d)
              = Inr (error_response rid (- 32603)
                  ''Tool execution error: int too large to convert to float''))"
  unfolding add_tool_response [OF assms(1-5)] assms(6,7) [symmetric]
  by (auto simp: py_add_def to_float_def py_str_def py_str_computed_def digit_limit_text_def)

text \<open>
  C6 as stated fails: with \<open>a = 10\<^sup>4\<^sup>0\<^sup>0\<close> and \<open>b\<close> a float the addition raises
  \<^verbatim>\<open>OverflowError\<close> and the call is answered with an error.
\<close>

theorem add_tool_counterexample:
  "handle_request sample_host MCPTestServer_init 0 (add_request (JInt (10 ^ 400)) (JFloat ()))
     = Inr (error_response (JInt 2) (- 32603)
         ''Tool execution error: int too large to convert to float'')"
  by (simp add: add_request_def handle_request_def handle_call_tool_def call_tool_try_def
      call_tool_content_def py_get_def dict_get_def dict_item_def py_add_def to_float_def
      float_overflows_def)

theorem add_tool_witness:
  "handle_request sample_host MCPTestServer_init 0 (add_request (JInt 2) (JInt (- 5)))
     = Inr (result_response (JInt 2) (content_result [text_block ''Result: -3'']))
   \<and> handle_request sample_host MCPTestServer_init 0 (add_request (JInt nines_4300) (JInt 1))
     = Inr (error_response (JInt 2) (- 32603)
         ''Tool execution error: Exceeds the limit (4300 digits) for integer string conversion; use sys.set_int_max_str_digits() to increase the limit'')
   \<and> handle_request sample_host MCPTestServer_init 0
        (add_request (JFloat ()) (JInt ten_pow_400))
     = Inr (error_response (JInt 2) (- 32603)
         ''Tool execution error: int too large to convert to float'')
   \<and> handle_request sample_host MCPTestServer_init 0 (add_request (JFloat ()) (JInt 3))
     = Inr (result_response (JInt 2) (content_result [text_block ''Result: nan'']))"
proof -
  have s: "int_str (- 3) = ''-3''" "nat_str 4300 = ''4300''" by code_simp+
  have l: "int_max_str_digits sample_host = 4300" "repr sample_host = (\<lambda>_. ''nan'')"
    by (simp_all add: sample_host_def)
  have p: "(10::int) ^ 640 \<le> 10 ^ 4300" by (rule power_increasing) simp_all
  have a: "\<bar>(10::int) ^ 4300\<bar> = 10 ^ 4300"
    by (rule abs_of_nonneg) (rule zero_le_power, simp)
  have n: "nines_4300 + 1 = 10 ^ 4300" by (simp only: nines_4300_def diff_add_cancel)
  have e1: "exceeds_digit_limit sample_host (nines_4300 + 1)"
    unfolding exceeds_digit_limit_def l n a by (intro conjI p order_refl) simp
  have e2: "\<not> exceeds_digit_limit sample_host (2 + - 5)"
    by (simp add: exceeds_digit_limit_def)
  have o1: "float_overflows ten_pow_400"
    by (simp add: float_overflows_def ten_pow_400_def)
  have o2: "\<not> float_overflows 3"
    by (simp add: float_overflows_def)
  note w = add_tool [where h = sample_host and self = MCPTestServer_init and tick = 0
      and rid = "JInt 2"]
  have 1: "handle_request sample_host MCPTestServer_init 0 (add_request (JInt 2) (JInt (- 5)))
     = Inr (result_response (JInt 2) (content_result [text_block ''Result: -3'']))"
    using e2
      w [where d = "[(''jsonrpc'', JStr ''2.0''), (''id'', JInt 2), (''method'', JStr ''tools/call''),
           (''params'', JObj [(''name'', JStr ''add''),
                              (''arguments'', JObj [(''a'', JInt 2), (''b'', JInt (- 5))])])]"
        and p = "[(''name'', JStr ''add''), (''arguments'', JObj [(''a'', JInt 2), (''b'', JInt (- 5))])]"
        and a = "[(''a'', JInt 2), (''b'', JInt (- 5))]" and x = "JInt 2" and y = "JInt (- 5)"]
    by (simp add: add_request_def dict_get_def s)
  have 2: "handle_request sample_host MCPTestServer_init 0
        (add_request (JInt nines_4300) (JInt 1))
     = Inr (error_response (JInt 2) (- 32603)
         ''Tool execution error: Exceeds the limit (4300 digits) for integer string conversion; use sys.set_int_max_str_digits() to increase the limit'')"
    using e1
      w [where d = "[(''jsonrpc'', JStr ''2.0''), (''id'', JInt 2), (''method'', JStr ''tools/call''),
           (''params'', JObj [(''name'', JStr ''add''),
                              (''arguments'', JObj [(''a'', JInt nines_4300), (''b'', JInt 1)])])]"
        and p = "[(''name'', JStr ''add''),
                  (''arguments'', JObj [(''a'', JInt nines_4300), (''b'', JInt 1)])]"
        and a = "[(''a'', JInt nines_4300), (''b'', JInt 1)]"
        and x = "JInt nines_4300" and y = "JInt 1"]
    by (simp add: add_request_def dict_get_def l s)
  have 3: "handle_request sample_host MCPTestServer_init 0
        (add_request (JFloat ()) (JInt ten_pow_400))
     = Inr (error_response (JInt 2) (- 32603)
         ''Tool execution error: int too large to convert to float'')"
    using o1
      w [where d = "[(''jsonrpc'', JStr ''2.0''), (''id'', JInt 2), (''method'', JStr ''tools/call''),
           (''params'', JObj [(''name'', JStr ''add''),
                              (''arguments'', JObj [(''a'', JFloat ()), (''b'', JInt ten_pow_400)])])]"
        and p = "[(''name'', JStr ''add''),
                  (''arguments'', JObj [(''a'', JFloat ()), (''b'', JInt ten_pow_400)])]"
        and a = "[(''a'', JFloat ()), (''b'', JInt ten_pow_400)]"
        and x = "JFloat ()" and y = "JInt ten_pow_400"]
    by (simp add: add_request_def dict_get_def)
  have 4: "handle_request sample_host MCPTestServer_init 0 (add_request (JFloat ()) (JInt 3))
     = Inr (result_response (JInt 2) (content_result [text_block ''Result: nan'']))"
    using o2
      w [where d = "[(''jsonrpc'', JStr ''2.0''), (''id'', JInt 2), (''method'', JStr ''tools/call''),
           (''params'', JObj [(''name'', JStr ''add''),
                              (''arguments'', JObj [(''a'', JFloat ()), (''b'', JInt 3)])])]"
        and p = "[(''name'', JStr ''add''), (''arguments'', JObj [(''a'', JFloat ()), (''b'', JInt 3)])]"
        and a = "[(''a'', JFloat ()), (''b'', JInt 3)]" and x = "JFloat ()" and y = "JInt 3"]
    by (simp add: add_request_def dict_get_def l)
  from 1 2 3 4 show ?thesis by blast
qed

end
